theory Spec2Isabelle
  imports Complex_Main
begin

section \<open>Values, exceptions and responses\<close>

text \<open>
  The repository is a Django REST backend: user accounts (\<open>users/\<close>) and products,
  orders, reviews and ratings (\<open>products/\<close>). The database tables become fields of
  one record \<open>db\<close>; every view takes the database and returns its outcome together
  with the database it leaves behind. An exception that leaves a view is the \<open>Inl\<close>
  side of the outcome, a \<open>Response(...)\<close> the \<open>Inr\<close> side.

  Strings are lists of ASCII characters. Primary keys are natural numbers.
\<close>

text \<open>
  The value that \<open>request.data.get(key)\<close> hands to a view: \<open>None\<close> when the key is
  missing or null, a string (form data, JSON strings), an integer, a number with two
  fractional digits (held as its number of hundredths), a truth value, a list, or an
  uploaded file with its name.
\<close>

datatype pyval =
    PyNone
  | PyStr string
  | PyInt int
  | PyDec int
  | PyBool bool
  | PyList "pyval list"
  | PyFile string

type_synonym body = "string \<rightharpoonup> pyval"

definition data_get :: "body \<Rightarrow> string \<Rightarrow> pyval" where
  "data_get data k = (case data k of None \<Rightarrow> PyNone | Some v \<Rightarrow> v)"

text \<open>Python's truth value of an object, as \<open>not quantity\<close> reads it.\<close>

fun truthy :: "pyval \<Rightarrow> bool" where
  "truthy PyNone = False"
| "truthy (PyStr s) = (s \<noteq> [])"
| "truthy (PyInt i) = (i \<noteq> 0)"
| "truthy (PyDec d) = (d \<noteq> 0)"
| "truthy (PyBool b) = b"
| "truthy (PyList xs) = (xs \<noteq> [])"
| "truthy (PyFile n) = True"

datatype exn =
    NotAuthenticated
  | Http404
  | PermissionDenied string
  | ValidationError "(string \<times> string) list"
  | ValueError string
  | TypeError
  | OverflowError
  | MultipleObjectsReturned
  | IntegrityError

text \<open>\<open>Response({'message': m}, status=s)\<close> is \<open>Response s m\<close>.\<close>

datatype response = Response nat string

definition HTTP_200_OK :: nat where "HTTP_200_OK = 200"
definition HTTP_201_CREATED :: nat where "HTTP_201_CREATED = 201"
definition HTTP_204_NO_CONTENT :: nat where "HTTP_204_NO_CONTENT = 204"
definition HTTP_400_BAD_REQUEST :: nat where "HTTP_400_BAD_REQUEST = 400"

section \<open>Python's \<open>int()\<close>\<close>

text \<open>
  \<open>int(s)\<close> on a string skips white space at both ends (tab to carriage return, and
  the blank), reads one optional sign and then decimal digits, where single underscores
  may stand between digits; anything else raises \<open>ValueError\<close> (\<open>None\<close> here). The
  interpreter's configurable limit on the number of digits is not part of the model.

  \<open>s.strip()\<close> removes more: the four separator characters 28 to 31 are white space
  for it too.
\<close>

definition is_space :: "char \<Rightarrow> bool" where
  "is_space c = (of_char c \<in> {9, 10, 11, 12, 13, 32 :: nat})"

definition is_unicode_space :: "char \<Rightarrow> bool" where
  "is_unicode_space c = (of_char c \<in> {9, 10, 11, 12, 13, 28, 29, 30, 31, 32 :: nat})"

definition strip :: "string \<Rightarrow> string" where
  "strip s = rev (dropWhile is_unicode_space (rev (dropWhile is_unicode_space s)))"

definition digit_val :: "char \<Rightarrow> int option" where
  "digit_val c =
     (let n = (of_char c :: nat) in if 48 \<le> n \<and> n \<le> 57 then Some (int n - 48) else None)"

text \<open>
  \<open>parse_digits acc prev cs\<close>: \<open>acc\<close> is the value read so far and \<open>prev\<close> says that
  the character before \<open>cs\<close> was a digit, which an underscore and the end need.
\<close>

fun parse_digits :: "int \<Rightarrow> bool \<Rightarrow> string \<Rightarrow> int option" where
  "parse_digits acc prev [] = (if prev then Some acc else None)"
| "parse_digits acc prev (c # cs) =
     (if c = CHR ''_'' then (if prev then parse_digits acc False cs else None)
      else (case digit_val c of
              None \<Rightarrow> None
            | Some d \<Rightarrow> parse_digits (10 * acc + d) True cs))"

definition int_of_str :: "string \<Rightarrow> int option" where
  "int_of_str s =
     (case rev (dropWhile is_space (rev (dropWhile is_space s))) of
        [] \<Rightarrow> None
      | c # cs \<Rightarrow>
          if c = CHR ''-'' then map_option uminus (parse_digits 0 False cs)
          else if c = CHR ''+'' then parse_digits 0 False cs
          else parse_digits 0 False (c # cs))"

text \<open>
  \<open>py_int v\<close> is \<open>int(v)\<close>: \<open>Inr\<close> the integer, \<open>Inl\<close> the exception. A number
  with a fraction is truncated towards zero, a truth value is 0 or 1, and \<open>None\<close>, a
  list or a file raise \<open>TypeError\<close>.
\<close>

definition trunc_hundredths :: "int \<Rightarrow> int" where
  "trunc_hundredths d = (if 0 \<le> d then d div 100 else - ((- d) div 100))"

fun py_int :: "pyval \<Rightarrow> exn + int" where
  "py_int PyNone = Inl TypeError"
| "py_int (PyInt i) = Inr i"
| "py_int (PyDec d) = Inr (trunc_hundredths d)"
| "py_int (PyBool b) = Inr (if b then 1 else 0)"
| "py_int (PyList xs) = Inl TypeError"
| "py_int (PyFile n) = Inl TypeError"
| "py_int (PyStr s) =
     (case int_of_str s of
        None \<Rightarrow> Inl (ValueError ''invalid literal for int() with base 10'')
      | Some i \<Rightarrow> Inr i)"

section \<open>The tables (\<open>models.py\<close>)\<close>

record product =
  name :: string
  price :: int
  description :: string
  image :: "string option"
  stock_quantity :: int
  created_date :: nat
  category :: string
  product_user :: nat

record rate =
  rate_user :: nat
  rate_product :: nat
  rating :: int

record order =
  order_pk :: nat
  order_product :: nat
  quantity :: int
  order_user :: nat

record review =
  review_product :: nat
  review_user :: nat
  review_text :: "string option"
  review_date :: nat

record custom_user =
  user_pk :: nat
  username :: string
  email :: string
  country :: string
  password :: string
  is_active :: bool

text \<open>
  \<open>products\<close> and \<open>reviews\<close> map a primary key to its row. \<open>orders\<close> and \<open>rates\<close>
  are lists of rows, since the claims count rows. \<open>tokens\<close> holds the rows of the
  token table: a user's key and the key itself. \<open>next_pk\<close> is the next primary key
  the database hands out.
\<close>

record db =
  users :: "custom_user list"
  tokens :: "(nat \<times> string) list"
  products :: "nat \<rightharpoonup> product"
  orders :: "order list"
  reviews :: "nat \<rightharpoonup> review"
  rates :: "rate list"
  next_pk :: nat

text \<open>
  Writing a \<open>PositiveIntegerField\<close>. The database is SQLite, as Django sets a project
  up: an integer outside 64 bits cannot be handed to it (\<open>OverflowError\<close>), and the
  column's \<open>CHECK\<close> refuses a negative value (\<open>IntegrityError\<close>). In both cases the
  statement writes nothing.
\<close>

definition positive_integer_write :: "int \<Rightarrow> exn option" where
  "positive_integer_write v =
     (if v < - (2 ^ 63) \<or> 2 ^ 63 - 1 < v then Some OverflowError
      else if v < 0 then Some IntegrityError
      else None)"

section \<open>The order workflow (\<open>OrderViewSet.create_order\<close>)\<close>

text \<open>
  \<open>Order.objects.get_or_create(user=u, product=p, defaults={'quantity': q})\<close>: the
  rows of the pair are looked up; none creates a row, if the database takes the
  quantity; one returns it; several raise \<open>MultipleObjectsReturned\<close>. The result
  carries the \<open>created\<close> flag.
\<close>

definition orders_of :: "order list \<Rightarrow> nat \<Rightarrow> nat \<Rightarrow> order list" where
  "orders_of os u p = filter (\<lambda>r. order_user r = u \<and> order_product r = p) os"

definition order_get_or_create :: "db \<Rightarrow> nat \<Rightarrow> nat \<Rightarrow> int \<Rightarrow> (exn + order \<times> bool) \<times> db" where
  "order_get_or_create st u p q =
     (case orders_of (orders st) u p of
        [] \<Rightarrow>
          (case positive_integer_write q of
             Some e \<Rightarrow> (Inl e, st)
           | None \<Rightarrow>
               (let row = \<lparr>order_pk = next_pk st, order_product = p, quantity = q, order_user = u\<rparr>
                in (Inr (row, True),
                    st\<lparr>orders := orders st @ [row], next_pk := Suc (next_pk st)\<rparr>)))
      | [row] \<Rightarrow> (Inr (row, False), st)
      | _ \<Rightarrow> (Inl MultipleObjectsReturned, st))"

text \<open>
  \<open>create_order st user pk data\<close>: \<open>user\<close> is \<open>request.user\<close> (\<open>None\<close> for an
  anonymous caller, whom \<open>IsAuthenticated\<close> turns away), \<open>pk\<close> the product's key from
  the URL and \<open>data\<close> the request body.
\<close>

definition create_order :: "db \<Rightarrow> nat option \<Rightarrow> nat \<Rightarrow> body \<Rightarrow> (exn + response) \<times> db" where
  "create_order st user pk data =
     (case user of
        None \<Rightarrow> (Inl NotAuthenticated, st)
      | Some u \<Rightarrow>
     (case products st pk of
        None \<Rightarrow> (Inl Http404, st)
      | Some product_to_order \<Rightarrow>
          let qv = data_get data ''quantity'' in
          if \<not> truthy qv then
            (Inr (Response HTTP_400_BAD_REQUEST ''Quantity is required''), st)
          else
            (case py_int qv of
               Inl (ValueError _) \<Rightarrow>
                 (Inr (Response HTTP_400_BAD_REQUEST ''Invalid quantity value''), st)
             | Inl e \<Rightarrow> (Inl e, st)
             | Inr q \<Rightarrow>
                 if stock_quantity product_to_order < q then
                   (Inr (Response HTTP_400_BAD_REQUEST ''Not enough stock available''), st)
                 else
                   let saved = product_to_order\<lparr>stock_quantity := stock_quantity product_to_order - q\<rparr>
                   in (case positive_integer_write (stock_quantity saved) of
                         Some e \<Rightarrow> (Inl e, st)
                       | None \<Rightarrow>
                   let st1 = st\<lparr>products := (products st)(pk \<mapsto> saved)\<rparr>
                   in (case order_get_or_create st1 u pk q of
                         (Inl e, st2) \<Rightarrow> (Inl e, st2)
                       | (Inr (instance_order, created), st2) \<Rightarrow>
                           if created then
                             (Inr (Response HTTP_201_CREATED ''Order successful''), st2)
                           else
                             (Inr (Response HTTP_400_BAD_REQUEST ''Order already exists''), st2))))))"

text \<open>The outcomes of the workflow, under the names the specification gives them.\<close>

definition Created :: "exn + response" where
  "Created = Inr (Response HTTP_201_CREATED ''Order successful'')"

definition AlreadyExists :: "exn + response" where
  "AlreadyExists = Inr (Response HTTP_400_BAD_REQUEST ''Order already exists'')"

definition InsufficientStock :: "exn + response" where
  "InsufficientStock = Inr (Response HTTP_400_BAD_REQUEST ''Not enough stock available'')"

definition QuantityRequired :: "exn + response" where
  "QuantityRequired = Inr (Response HTTP_400_BAD_REQUEST ''Quantity is required'')"

definition InvalidQuantity :: "exn + response" where
  "InvalidQuantity = Inr (Response HTTP_400_BAD_REQUEST ''Invalid quantity value'')"

text \<open>A sequence of order placements, each a caller, a product key and a body.\<close>

fun place_orders :: "db \<Rightarrow> (nat option \<times> nat \<times> body) list \<Rightarrow> db" where
  "place_orders st [] = st"
| "place_orders st ((user, pk, data) # rs) = place_orders (snd (create_order st user pk data)) rs"

text \<open>
  The two invariants of the claims: no product has a negative stock, and no pair of a
  user and a product has more than one order row.
\<close>

definition stock_nonneg :: "db \<Rightarrow> bool" where
  "stock_nonneg st = (\<forall>pk p. products st pk = Some p \<longrightarrow> 0 \<le> stock_quantity p)"

definition one_order_per_pair :: "db \<Rightarrow> bool" where
  "one_order_per_pair st = (\<forall>u p. length (orders_of (orders st) u p) \<le> 1)"

section \<open>The serializer fields\<close>

text \<open>
  The serializers are \<open>ModelSerializer\<close>s: the framework builds their fields from the
  columns of \<open>models.py\<close>. A field turns the value of the body into the value of the
  column, or answers with an error message; of several validators that fail, the
  first one's message is kept.

  Most fields read the text of the value, \<open>str(data)\<close>. For an integer that is its
  decimal digits; for a number with a fraction it is what Python prints for a float
  below \<open>10\<^sup>1\<^sup>6\<close>; for a file it is the file's name. The text of a list is left out:
  it begins with a bracket, and no field reads a value from it.
\<close>

fun digits_of :: "nat \<Rightarrow> nat \<Rightarrow> string" where
  "digits_of 0 n = []"
| "digits_of (Suc fuel) n =
     (if n < 10 then [char_of (48 + n)] else digits_of fuel (n div 10) @ [char_of (48 + n mod 10)])"

definition str_of_int :: "int \<Rightarrow> string" where
  "str_of_int i =
     (if i < 0 then CHR ''-'' # digits_of (Suc (nat (- i))) (nat (- i))
      else digits_of (Suc (nat i)) (nat i))"

definition str_of_dec :: "int \<Rightarrow> string" where
  "str_of_dec d =
     (let w = \<bar>d\<bar> div 100; f = nat (\<bar>d\<bar> mod 100)
      in (if d < 0 then ''-'' else []) @ str_of_int w @ ''.'' @
         (if f mod 10 = 0 then [char_of (48 + f div 10)]
          else [char_of (48 + f div 10), char_of (48 + f mod 10)]))"

fun py_str :: "pyval \<Rightarrow> string option" where
  "py_str PyNone = Some ''None''"
| "py_str (PyStr s) = Some s"
| "py_str (PyInt i) = Some (str_of_int i)"
| "py_str (PyDec d) = Some (str_of_dec d)"
| "py_str (PyBool b) = Some (if b then ''True'' else ''False'')"
| "py_str (PyList xs) = None"
| "py_str (PyFile n) = Some n"

text \<open>
  \<open>IntegerField\<close>: a string of more than 1000 characters is refused; otherwise
  \<open>int(re_decimal.sub('', str(data)))\<close>, where the pattern \<open>\.0*\s*$\<close> takes a point
  with nothing but zeros and white space behind it off the end. Then the bounds.
\<close>

definition re_decimal_sub :: "string \<Rightarrow> string" where
  "re_decimal_sub s =
     (case dropWhile (\<lambda>c. c = CHR ''0'') (dropWhile is_unicode_space (rev s)) of
        [] \<Rightarrow> s
      | c # cs \<Rightarrow> if c = CHR ''.'' then rev cs else s)"

definition integer_field :: "int \<Rightarrow> int \<Rightarrow> pyval \<Rightarrow> string + int" where
  "integer_field min_value max_value v =
     (case v of
        PyNone \<Rightarrow> Inl ''This field may not be null.''
      | _ \<Rightarrow>
          if (case v of PyStr s \<Rightarrow> 1000 < length s | _ \<Rightarrow> False) then
            Inl ''String value too large.''
          else
            (case Option.bind (py_str v) (\<lambda>s. int_of_str (re_decimal_sub s)) of
               None \<Rightarrow> Inl ''A valid integer is required.''
             | Some i \<Rightarrow>
                 if max_value < i then
                   Inl (''Ensure this value is less than or equal to '' @ str_of_int max_value @ ''.'')
                 else if i < min_value then
                   Inl (''Ensure this value is greater than or equal to '' @ str_of_int min_value @ ''.'')
                 else Inr i))"

text \<open>
  A \<open>PositiveIntegerField\<close> of the model becomes an \<open>IntegerField\<close> with the bounds
  of the column, which on SQLite are 0 and \<open>2\<^sup>6\<^sup>3 - 1\<close>.
\<close>

definition positive_integer_field :: "pyval \<Rightarrow> string + int" where
  "positive_integer_field v = integer_field 0 (2 ^ 63 - 1) v"

text \<open>
  \<open>decimal.Decimal(s)\<close> on a stripped string: underscores are dropped; then a sign,
  digits with at most one point and at least one digit, and an exponent may follow.
  The number is a coefficient and an exponent of ten, \<open>(c, e)\<close> for \<open>c \<sqdot> 10\<^sup>e\<close>.
  Exponents beyond the limits of the \<open>decimal\<close> module are refused, and so is
  everything that is not a finite number.
\<close>

definition is_digit :: "char \<Rightarrow> bool" where
  "is_digit c = (48 \<le> (of_char c :: nat) \<and> (of_char c :: nat) \<le> 57)"

definition digits_value :: "string \<Rightarrow> int" where
  "digits_value ds = foldl (\<lambda>a c. 10 * a + (int (of_char c) - 48)) 0 ds"

definition split_sign :: "string \<Rightarrow> bool \<times> string" where
  "split_sign s =
     (case s of
        [] \<Rightarrow> (False, [])
      | c # cs \<Rightarrow>
          if c = CHR ''-'' then (True, cs) else if c = CHR ''+'' then (False, cs) else (False, s))"

definition exponent_of_str :: "string \<Rightarrow> int option" where
  "exponent_of_str s =
     (let (neg, ds) = split_sign s
      in if ds \<noteq> [] \<and> list_all is_digit ds then
           Some (if neg then - digits_value ds else digits_value ds)
         else None)"

definition decimal_in_range :: "int \<times> int \<Rightarrow> bool" where
  "decimal_in_range ce =
     (case ce of
        (c, e) \<Rightarrow>
          - 1999999999999999997 \<le> e \<and>
          e + int (length (str_of_int \<bar>c\<bar>)) - 1 \<le> 999999999999999999)"

definition decimal_of_str :: "string \<Rightarrow> (int \<times> int) option" where
  "decimal_of_str s =
     (let (neg, t) = split_sign (filter (\<lambda>c. c \<noteq> CHR ''_'') s);
          ip = takeWhile is_digit t;
          r1 = dropWhile is_digit t;
          (fp, r2) =
            (case r1 of
               [] \<Rightarrow> ([], [])
             | c # cs \<Rightarrow>
                 if c = CHR ''.'' then (takeWhile is_digit cs, dropWhile is_digit cs)
                 else ([], r1));
          c = (if neg then - digits_value (ip @ fp) else digits_value (ip @ fp));
          ex =
            (case r2 of
               [] \<Rightarrow> Some 0
             | x # xs \<Rightarrow> if x = CHR ''e'' \<or> x = CHR ''E'' then exponent_of_str xs else None)
      in if ip = [] \<and> fp = [] then None
         else (case ex of
                 None \<Rightarrow> None
               | Some x \<Rightarrow>
                   if decimal_in_range (c, x - int (length fp)) then Some (c, x - int (length fp))
                   else None))"

text \<open>
  \<open>DecimalField(max_digits, decimal_places)\<close>: the stripped text of the value is read
  as a decimal, and \<open>validate_precision\<close> counts its digits as a whole, behind and
  before the point.
\<close>

definition validate_precision :: "nat \<Rightarrow> nat \<Rightarrow> int \<times> int \<Rightarrow> string + int \<times> int" where
  "validate_precision max_digits decimal_places ce =
     (case ce of
        (c, e) \<Rightarrow>
          let n = int (length (str_of_int \<bar>c\<bar>));
              (total_digits, whole_digits, places) =
                (if 0 \<le> e then (n + e, n + e, 0)
                 else if - e < n then (n, n + e, - e)
                 else (- e, 0, - e))
          in if int max_digits < total_digits then
               Inl (''Ensure that there are no more than '' @ str_of_int (int max_digits) @
                    '' digits in total.'')
             else if int decimal_places < places then
               Inl (''Ensure that there are no more than '' @ str_of_int (int decimal_places) @
                    '' decimal places.'')
             else if int max_digits - int decimal_places < whole_digits then
               Inl (''Ensure that there are no more than '' @
                    str_of_int (int max_digits - int decimal_places) @
                    '' digits before the decimal point.'')
             else Inr (c, e))"

definition decimal_field :: "nat \<Rightarrow> nat \<Rightarrow> pyval \<Rightarrow> string + int \<times> int" where
  "decimal_field max_digits decimal_places v =
     (case v of
        PyNone \<Rightarrow> Inl ''This field may not be null.''
      | _ \<Rightarrow>
          (case py_str v of
             None \<Rightarrow> Inl ''A valid number is required.''
           | Some s \<Rightarrow>
               if 1000 < length (strip s) then Inl ''String value too large.''
               else (case decimal_of_str (strip s) of
                       None \<Rightarrow> Inl ''A valid number is required.''
                     | Some ce \<Rightarrow> validate_precision max_digits decimal_places ce)))"

text \<open>
  \<open>CharField\<close>: a value whose stripped text is empty is blank; otherwise strings and
  numbers are taken as their stripped text, which must keep within \<open>max_length\<close> and
  hold no null character.
\<close>

definition char_field :: "bool \<Rightarrow> nat option \<Rightarrow> pyval \<Rightarrow> string + string" where
  "char_field allow_blank max_length v =
     (if (case py_str v of None \<Rightarrow> False | Some s \<Rightarrow> strip s = []) then
        (if allow_blank then Inr [] else Inl ''This field may not be blank.'')
      else
        (case (case v of
                 PyStr s \<Rightarrow> Some s
               | PyInt i \<Rightarrow> Some (str_of_int i)
               | PyDec d \<Rightarrow> Some (str_of_dec d)
               | _ \<Rightarrow> None) of
           None \<Rightarrow>
             if v = PyNone then Inl ''This field may not be null.'' else Inl ''Not a valid string.''
         | Some s \<Rightarrow>
             (let t = strip s
              in case (case max_length of
                         None \<Rightarrow> None
                       | Some m \<Rightarrow> if m < length t then Some m else None) of
                   Some m \<Rightarrow>
                     Inl (''Ensure this field has no more than '' @ str_of_int (int m) @
                          '' characters.'')
                 | None \<Rightarrow>
                     if CHR 0x00 \<in> set t then Inl ''Null characters are not allowed.''
                     else Inr t)))"

text \<open>\<open>ChoiceField\<close>: the text of the value must be one of the keys.\<close>

definition choice_field :: "string list \<Rightarrow> pyval \<Rightarrow> string + string" where
  "choice_field keys v =
     (case v of
        PyNone \<Rightarrow> Inl ''This field may not be null.''
      | _ \<Rightarrow>
          (case py_str v of
             None \<Rightarrow> Inl ''Not a valid choice.''
           | Some s \<Rightarrow>
               if s \<in> set keys then Inr s
               else Inl (CHR 0x22 # s @ CHR 0x22 # '' is not a valid choice.'')))"

text \<open>
  \<open>ImageField\<close> with \<open>null=True\<close>: null is kept; an uploaded file, taken here to be a
  sound image that is not empty, needs a name of at most 100 characters and is stored
  under \<open>upload_to\<close>; any other value is not a file.
\<close>

definition image_file_field :: "string \<Rightarrow> pyval \<Rightarrow> string + string option" where
  "image_file_field upload_to v =
     (case v of
        PyNone \<Rightarrow> Inr None
      | PyFile n \<Rightarrow>
          if n = [] then Inl ''No filename could be determined.''
          else if 100 < length n then
            Inl (''Ensure this filename has at most 100 characters (it has '' @
                 str_of_int (int (length n)) @ '').'')
          else Inr (Some (upload_to @ ''/'' @ n))
      | _ \<Rightarrow> Inl ''The submitted data was not a file. Check the encoding type on the form.'')"

text \<open>
  \<open>PrimaryKeyRelatedField\<close>: \<open>queryset.get(pk=data)\<close> reads the value with \<open>int()\<close>.
  A truth value or a value that \<open>int()\<close> refuses is of the wrong type; an integer that
  is no key of the table does not exist. The messages are given without the value and
  the type that the framework prints inside them.
\<close>

definition pk_field :: "(nat \<Rightarrow> bool) \<Rightarrow> pyval \<Rightarrow> string + nat" where
  "pk_field is_key v =
     (case v of
        PyNone \<Rightarrow> Inl ''This field may not be null.''
      | PyBool b \<Rightarrow> Inl ''Incorrect type. Expected pk value.''
      | _ \<Rightarrow>
          (case py_int v of
             Inl e \<Rightarrow> Inl ''Incorrect type. Expected pk value.''
           | Inr i \<Rightarrow>
               if 0 \<le> i \<and> is_key (nat i) then Inr (nat i)
               else Inl ''Invalid pk - object does not exist.''))"

definition product_field :: "db \<Rightarrow> pyval \<Rightarrow> string + nat" where
  "product_field st v = pk_field (\<lambda>k. products st k \<noteq> None) v"

definition user_field :: "db \<Rightarrow> pyval \<Rightarrow> string + nat" where
  "user_field st v = pk_field (\<lambda>k. k \<in> user_pk ` set (users st)) v"

text \<open>A field's own \<open>validate_<field>\<close> method runs on the value the field has read.\<close>

definition bind_field :: "string + 'a \<Rightarrow> ('a \<Rightarrow> string + 'b) \<Rightarrow> string + 'b" where
  "bind_field r f = (case r of Inl e \<Rightarrow> Inl e | Inr x \<Rightarrow> f x)"

section \<open>The other order views (\<open>OrderViewSet\<close>)\<close>

text \<open>
  \<open>OrderSerializer\<close> is a \<open>ModelSerializer\<close> over the fields \<open>product\<close>,
  \<open>quantity\<close> and \<open>user\<close>, all writable: \<open>product\<close> and \<open>user\<close> are primary keys
  of existing rows and \<open>quantity\<close> is a \<open>PositiveIntegerField\<close>. With
  \<open>partial=True\<close> a field that the body leaves out is skipped; otherwise it is
  required.
\<close>

definition quantity_field :: "pyval \<Rightarrow> string + int" where
  "quantity_field v = positive_integer_field v"

text \<open>
  One field of a serializer: the errors it adds and the value it passes on. A field
  that is missing is an error only when it is required and the update is not partial.
\<close>

definition run_field ::
  "bool \<Rightarrow> bool \<Rightarrow> body \<Rightarrow> string \<Rightarrow> (pyval \<Rightarrow> string + 'a) \<Rightarrow> (string \<times> string) list \<times> 'a option" where
  "run_field partial required data k conv =
     (case data k of
        None \<Rightarrow>
          if required \<and> \<not> partial then ([(k, ''This field is required.'')], None)
          else ([], None)
      | Some v \<Rightarrow>
          (case conv v of
             Inl msg \<Rightarrow> ([(k, msg)], None)
           | Inr x \<Rightarrow> ([], Some x)))"

record order_data =
  od_product :: "nat option"
  od_quantity :: "int option"
  od_user :: "nat option"

definition OrderSerializer_is_valid :: "db \<Rightarrow> bool \<Rightarrow> body \<Rightarrow> exn + order_data" where
  "OrderSerializer_is_valid st partial data =
     (let (e1, p) = run_field partial True data ''product'' (product_field st);
          (e2, q) = run_field partial True data ''quantity'' quantity_field;
          (e3, u) = run_field partial True data ''user'' (user_field st)
      in if e1 @ e2 @ e3 = [] then Inr \<lparr>od_product = p, od_quantity = q, od_user = u\<rparr>
         else Inl (ValidationError (e1 @ e2 @ e3)))"

text \<open>\<open>serializer.save()\<close> on an instance sets the validated attributes and saves the row.\<close>

definition order_set_attrs :: "order \<Rightarrow> order_data \<Rightarrow> order" where
  "order_set_attrs r d =
     r\<lparr>order_product := (case od_product d of None \<Rightarrow> order_product r | Some p \<Rightarrow> p),
       quantity := (case od_quantity d of None \<Rightarrow> quantity r | Some q \<Rightarrow> q),
       order_user := (case od_user d of None \<Rightarrow> order_user r | Some u \<Rightarrow> u)\<rparr>"

text \<open>A response that carries serializer data: status, message and the row.\<close>

datatype 'd data_response = DataResponse nat string 'd

text \<open>
  \<open>OrderViewSet\<close> is a \<open>ModelViewSet\<close>, registered under \<open>orders\<close> in \<open>urls.py\<close>, so
  it keeps the inherited \<open>create\<close> action of \<open>POST /orders/\<close>: the body is validated
  by \<open>OrderSerializer\<close> and saved as a new row. No stock is read and no existing row
  is looked up.
\<close>

definition OrderViewSet_create ::
  "db \<Rightarrow> nat option \<Rightarrow> body \<Rightarrow> (exn + order data_response) \<times> db" where
  "OrderViewSet_create st user data =
     (case user of
        None \<Rightarrow> (Inl NotAuthenticated, st)
      | Some _ \<Rightarrow>
          (case OrderSerializer_is_valid st False data of
             Inl e \<Rightarrow> (Inl e, st)
           | Inr d \<Rightarrow>
               (case (od_product d, od_quantity d, od_user d) of
                  (Some p, Some q, Some u) \<Rightarrow>
                    (let row = \<lparr>order_pk = next_pk st, order_product = p, quantity = q, order_user = u\<rparr>
                     in (Inr (DataResponse HTTP_201_CREATED [] row),
                         st\<lparr>orders := orders st @ [row], next_pk := Suc (next_pk st)\<rparr>))
                | _ \<Rightarrow> (Inl IntegrityError, st))))"

text \<open>
  \<open>get_object_or_404(klass, **lookup)\<close>: \<open>klass\<close> must be a model, manager or query
  set; anything else, \<open>None\<close> too, raises \<open>ValueError\<close>. Otherwise the one row that
  matches is returned and no row is \<open>Http404\<close>.
\<close>

definition get_object_or_404 :: "'r list option \<Rightarrow> ('r \<Rightarrow> bool) \<Rightarrow> exn + 'r" where
  "get_object_or_404 klass lookup =
     (case klass of
        None \<Rightarrow>
          Inl (ValueError ''First argument to get_object_or_404() must be a Model, Manager, or QuerySet, not NoneType.'')
      | Some rows \<Rightarrow>
          (case filter lookup rows of
             [] \<Rightarrow> Inl Http404
           | [r] \<Rightarrow> Inr r
           | _ \<Rightarrow> Inl MultipleObjectsReturned))"

text \<open>
  The class body of \<open>OrderViewSet\<close> sets \<open>permission_classes\<close> and
  \<open>serializer_class\<close> only. \<open>self.queryset\<close> is therefore the attribute it inherits
  from \<open>GenericAPIView\<close>, which is \<open>None\<close>; \<open>urls.py\<close> registers the view set with an
  explicit \<open>basename\<close>, as a view set without a query set needs.
\<close>

definition OrderViewSet_queryset :: "(db \<Rightarrow> order list) option" where
  "OrderViewSet_queryset = None"

definition order_lookup :: "db \<Rightarrow> nat \<Rightarrow> nat \<Rightarrow> exn + order" where
  "order_lookup st pk u =
     get_object_or_404 (map_option (\<lambda>q. q st) OrderViewSet_queryset)
       (\<lambda>r. order_pk r = pk \<and> order_user r = u)"

definition OrderViewSet_retrieve :: "db \<Rightarrow> nat option \<Rightarrow> nat \<Rightarrow> exn + order data_response" where
  "OrderViewSet_retrieve st user pk =
     (case user of
        None \<Rightarrow> Inl NotAuthenticated
      | Some u \<Rightarrow>
          (case order_lookup st pk u of
             Inl e \<Rightarrow> Inl e
           | Inr order \<Rightarrow> Inr (DataResponse HTTP_200_OK [] order)))"

definition order_perform_update ::
  "db \<Rightarrow> bool \<Rightarrow> string \<Rightarrow> nat option \<Rightarrow> nat \<Rightarrow> body \<Rightarrow> (exn + order data_response) \<times> db" where
  "order_perform_update st partial msg user pk data =
     (case user of
        None \<Rightarrow> (Inl NotAuthenticated, st)
      | Some u \<Rightarrow>
          (case order_lookup st pk u of
             Inl e \<Rightarrow> (Inl e, st)
           | Inr order \<Rightarrow>
               (case OrderSerializer_is_valid st partial data of
                  Inl e \<Rightarrow> (Inl e, st)
                | Inr d \<Rightarrow>
                    (let saved = order_set_attrs order d
                     in (Inr (DataResponse HTTP_200_OK msg saved),
                         st\<lparr>orders := map (\<lambda>r. if order_pk r = order_pk order then saved else r) (orders st)\<rparr>)))))"

definition OrderViewSet_update ::
  "db \<Rightarrow> nat option \<Rightarrow> nat \<Rightarrow> body \<Rightarrow> (exn + order data_response) \<times> db" where
  "OrderViewSet_update st user pk data =
     order_perform_update st False ''Order updated successfully!'' user pk data"

definition OrderViewSet_partial_update ::
  "db \<Rightarrow> nat option \<Rightarrow> nat \<Rightarrow> body \<Rightarrow> (exn + order data_response) \<times> db" where
  "OrderViewSet_partial_update st user pk data =
     order_perform_update st True ''Order partially updated!'' user pk data"

definition OrderViewSet_destroy :: "db \<Rightarrow> nat option \<Rightarrow> nat \<Rightarrow> (exn + response) \<times> db" where
  "OrderViewSet_destroy st user pk =
     (case user of
        None \<Rightarrow> (Inl NotAuthenticated, st)
      | Some u \<Rightarrow>
          (case order_lookup st pk u of
             Inl e \<Rightarrow> (Inl e, st)
           | Inr order \<Rightarrow>
               (Inr (Response HTTP_204_NO_CONTENT ''Order deleted successfully!''),
                st\<lparr>orders := filter (\<lambda>r. order_pk r \<noteq> order_pk order) (orders st)\<rparr>)))"

section \<open>A small database for worked examples\<close>

text \<open>
  One product with five pieces in stock, owned by user 1; users 1, 2 and 3 exist. The
  specification's example scenario runs on it.
\<close>

definition demo_product :: product where
  "demo_product =
     \<lparr>name = ''Jersey'', price = 2500, description = ''Home kit'', image = None,
      stock_quantity = 5, created_date = 0, category = ''jerseys'', product_user = 1\<rparr>"

definition demo_user :: "nat \<Rightarrow> string \<Rightarrow> custom_user" where
  "demo_user k n =
     \<lparr>user_pk = k, username = n, email = n @ ''@example.org'', country = ''ZA'',
      password = ''hash:'' @ n, is_active = True\<rparr>"

definition demo_db :: db where
  "demo_db =
     \<lparr>users = [demo_user 1 ''ann'', demo_user 2 ''bob'', demo_user 3 ''cat''],
      tokens = [], products = [1 \<mapsto> demo_product], orders = [],
      reviews = Map.empty, rates = [], next_pk = 10\<rparr>"

definition quantity_body :: "string \<Rightarrow> body" where
  "quantity_body s = [''quantity'' \<mapsto> PyStr s]"

text \<open>The database after user 2 has ordered three pieces.\<close>

definition ordered_db :: db where
  "ordered_db =
     demo_db\<lparr>products := [1 \<mapsto> demo_product\<lparr>stock_quantity := 2\<rparr>],
             orders := [\<lparr>order_pk = 10, order_product = 1, quantity = 3, order_user = 2\<rparr>],
             next_pk := 11\<rparr>"


text \<open>
  The database after \<open>POST /orders/\<close> has been sent once, and twice, for user 2 and
  product 1: after the second, two order rows for the pair, the stock untouched.
\<close>

definition once_db :: db where
  "once_db =
     demo_db\<lparr>orders := [\<lparr>order_pk = 10, order_product = 1, quantity = 1, order_user = 2\<rparr>],
             next_pk := 11\<rparr>"

definition doubled_db :: db where
  "doubled_db =
     demo_db\<lparr>orders := [\<lparr>order_pk = 10, order_product = 1, quantity = 1, order_user = 2\<rparr>,
                        \<lparr>order_pk = 11, order_product = 1, quantity = 1, order_user = 2\<rparr>],
             next_pk := 12\<rparr>"

text \<open>The body of a \<open>POST /orders/\<close> that asks for one piece of product 1 for user 2.\<close>

definition order_body :: body where
  "order_body = [''product'' \<mapsto> PyInt 1, ''quantity'' \<mapsto> PyInt 1, ''user'' \<mapsto> PyInt 2]"

section \<open>The catalogue (\<open>ProductSerializer\<close>, \<open>ProductViewSet\<close>)\<close>

definition CATEGORY_CHOICES :: "(string \<times> string) list" where
  "CATEGORY_CHOICES =
     [(''pants'', ''Pants''), (''t-shirts'', ''T-shirts''), (''shoes'', ''Shoes''),
      (''jerseys'', ''Jerseys''), (''dresses'', ''Dresses''), (''socks'', ''Socks''),
      (''shorts'', ''Shorts'')]"

text \<open>\<open>ProductSerializer.Meta\<close>.\<close>

definition ProductSerializer_fields :: "string list" where
  "ProductSerializer_fields =
     [''name'', ''price'', ''description'', ''image'', ''stock_quantity'', ''category'',
      ''created_date'', ''user'', ''average_rating'']"

definition ProductSerializer_read_only_fields :: "string list" where
  "ProductSerializer_read_only_fields = [''created_date'', ''user'']"

text \<open>
  The fields a request can write: those of \<open>Meta.fields\<close> that are not read-only.
  \<open>average_rating\<close> is a \<open>SerializerMethodField\<close>, which is read-only by itself.
\<close>

definition ProductSerializer_writable_fields :: "string list" where
  "ProductSerializer_writable_fields =
     filter (\<lambda>f. f \<notin> set ProductSerializer_read_only_fields \<and> f \<noteq> ''average_rating'')
       ProductSerializer_fields"

text \<open>
  The \<open>validate_<field>\<close> methods. A price is held in hundredths, so the bound
  \<open>1000\<close> is \<open>100000\<close>.
\<close>

definition validate_name :: "string \<Rightarrow> string + string" where
  "validate_name v = (if v = [] then Inl ''Name cannot be blank'' else Inr v)"

definition validate_price :: "int \<Rightarrow> string + int" where
  "validate_price v =
     (if \<not> (0 \<le> v \<and> v \<le> 100000) then Inl ''Price should be between $0.1 and $999''
      else Inr v)"

definition validate_stock_quantity :: "int \<Rightarrow> string + int" where
  "validate_stock_quantity v =
     (if \<not> (0 \<le> v \<and> v \<le> 100) then Inl ''Quantity should be between 0 to 100'' else Inr v)"

definition validate_category :: "string \<Rightarrow> string + string" where
  "validate_category v = (if v = [] then Inl ''Select category'' else Inr v)"

text \<open>
  The fields of \<open>ProductSerializer\<close>, from the columns of \<open>Product\<close>; each runs its
  \<open>validate_\<close> method, if it has one, after its own checks. A price is kept in
  hundredths once its precision has been checked.
\<close>

definition name_field :: "pyval \<Rightarrow> string + string" where
  "name_field v = bind_field (char_field False (Some 100) v) validate_name"

definition price_field :: "pyval \<Rightarrow> string + int" where
  "price_field v =
     bind_field (decimal_field 5 2 v) (\<lambda>(c, e). validate_price (c * 10 ^ nat (e + 2)))"

definition description_field :: "pyval \<Rightarrow> string + string" where
  "description_field v = char_field False (Some 500) v"

definition image_field :: "pyval \<Rightarrow> string + string option" where
  "image_field v = image_file_field ''products_pictures'' v"

definition stock_quantity_field :: "pyval \<Rightarrow> string + int" where
  "stock_quantity_field v = bind_field (positive_integer_field v) validate_stock_quantity"

definition category_field :: "pyval \<Rightarrow> string + string" where
  "category_field v = bind_field (choice_field (map fst CATEGORY_CHOICES) v) validate_category"

record product_data =
  pd_name :: "string option"
  pd_price :: "int option"
  pd_description :: "string option"
  pd_image :: "string option option"
  pd_stock_quantity :: "int option"
  pd_category :: "string option"
  pd_user :: "nat option"

text \<open>
  \<open>is_valid\<close>: only the writable fields are read from the body. \<open>image\<close> and
  \<open>stock_quantity\<close> (which has a default) are not required.
\<close>

definition ProductSerializer_is_valid :: "bool \<Rightarrow> body \<Rightarrow> exn + product_data" where
  "ProductSerializer_is_valid partial data =
     (let d = data |` set ProductSerializer_writable_fields;
          (e1, n) = run_field partial True d ''name'' name_field;
          (e2, p) = run_field partial True d ''price'' price_field;
          (e3, t) = run_field partial True d ''description'' description_field;
          (e4, i) = run_field partial False d ''image'' image_field;
          (e5, s) = run_field partial False d ''stock_quantity'' stock_quantity_field;
          (e6, c) = run_field partial True d ''category'' category_field;
          errors = e1 @ e2 @ e3 @ e4 @ e5 @ e6
      in if errors = [] then
           Inr \<lparr>pd_name = n, pd_price = p, pd_description = t, pd_image = i,
                pd_stock_quantity = s, pd_category = c, pd_user = None\<rparr>
         else Inl (ValidationError errors))"

text \<open>
  \<open>Product.objects.create(**validated_data)\<close> at time \<open>now\<close>: \<open>created_date\<close> is
  \<open>auto_now_add\<close>, \<open>stock_quantity\<close> defaults to 0 and \<open>image\<close> to none. A column
  that must not be null and has no value is an \<open>IntegrityError\<close>.
\<close>

definition Product_objects_create :: "nat \<Rightarrow> product_data \<Rightarrow> exn + product" where
  "Product_objects_create now d =
     (case (pd_name d, pd_price d, pd_description d, pd_category d, pd_user d) of
        (Some n, Some p, Some t, Some c, Some u) \<Rightarrow>
          Inr \<lparr>name = n, price = p, description = t,
               image = (case pd_image d of None \<Rightarrow> None | Some i \<Rightarrow> i),
               stock_quantity = (case pd_stock_quantity d of None \<Rightarrow> 0 | Some s \<Rightarrow> s),
               created_date = now, category = c, product_user = u\<rparr>
      | _ \<Rightarrow> Inl IntegrityError)"

text \<open>
  \<open>ProductSerializer.create\<close> puts \<open>request.user\<close> into the validated data and
  creates the row.
\<close>

definition ProductSerializer_create :: "nat \<Rightarrow> nat \<Rightarrow> product_data \<Rightarrow> exn + product" where
  "ProductSerializer_create now request_user validated_data =
     Product_objects_create now (validated_data\<lparr>pd_user := Some request_user\<rparr>)"

text \<open>\<open>ModelSerializer.update\<close>: every validated attribute is set, then the row is saved.\<close>

definition product_set_attrs :: "product \<Rightarrow> product_data \<Rightarrow> product" where
  "product_set_attrs r d =
     r\<lparr>name := (case pd_name d of None \<Rightarrow> name r | Some v \<Rightarrow> v),
       price := (case pd_price d of None \<Rightarrow> price r | Some v \<Rightarrow> v),
       description := (case pd_description d of None \<Rightarrow> description r | Some v \<Rightarrow> v),
       image := (case pd_image d of None \<Rightarrow> image r | Some v \<Rightarrow> v),
       stock_quantity := (case pd_stock_quantity d of None \<Rightarrow> stock_quantity r | Some v \<Rightarrow> v),
       category := (case pd_category d of None \<Rightarrow> category r | Some v \<Rightarrow> v),
       product_user := (case pd_user d of None \<Rightarrow> product_user r | Some v \<Rightarrow> v)\<rparr>"

text \<open>
  \<open>ProductViewSet.create\<close> with \<open>perform_create\<close>: \<open>serializer.save(user=request.user)\<close>
  adds the caller to the validated data before \<open>ProductSerializer.create\<close> runs.
\<close>

definition ProductViewSet_create ::
  "db \<Rightarrow> nat \<Rightarrow> nat option \<Rightarrow> body \<Rightarrow> (exn + product data_response) \<times> db" where
  "ProductViewSet_create st now user data =
     (case user of
        None \<Rightarrow> (Inl NotAuthenticated, st)
      | Some u \<Rightarrow>
          (case ProductSerializer_is_valid False data of
             Inl e \<Rightarrow> (Inl e, st)
           | Inr d \<Rightarrow>
               (case ProductSerializer_create now u (d\<lparr>pd_user := Some u\<rparr>) of
                  Inl e \<Rightarrow> (Inl e, st)
                | Inr row \<Rightarrow>
                    (Inr (DataResponse HTTP_201_CREATED ''Product(s) uploaded successfully!'' row),
                     st\<lparr>products := (products st)(next_pk st \<mapsto> row),
                        next_pk := Suc (next_pk st)\<rparr>))))"

text \<open>
  \<open>get_queryset\<close>: the query parameters \<open>search\<close> and \<open>price\<close>, when given and not
  empty, narrow the products. \<open>icontains\<close> is a substring test that ignores case; on
  \<open>stock_quantity\<close> it reads the number as text. The \<open>price\<close> parameter is held as the
  number of hundredths it stands for, \<open>None\<close> when it is missing or empty.
\<close>

record query_params =
  qp_search :: "string option"
  qp_price :: "int option"

definition lower :: "string \<Rightarrow> string" where
  "lower s = map (\<lambda>c. let n = (of_char c :: nat) in if 65 \<le> n \<and> n \<le> 90 then char_of (n + 32) else c) s"

fun contains :: "string \<Rightarrow> string \<Rightarrow> bool" where
  "contains needle [] = (needle = [])"
| "contains needle (c # cs) = (take (length needle) (c # cs) = needle \<or> contains needle cs)"

definition icontains :: "string \<Rightarrow> string \<Rightarrow> bool" where
  "icontains hay needle = contains (lower needle) (lower hay)"

definition product_matches :: "query_params \<Rightarrow> product \<Rightarrow> bool" where
  "product_matches qp r =
     ((case qp_search qp of
         None \<Rightarrow> True
       | Some search \<Rightarrow>
           search = [] \<or> icontains (name r) search \<or> icontains (category r) search \<or>
           icontains (str_of_int (stock_quantity r)) search) \<and>
      (case qp_price qp of
         None \<Rightarrow> True
       | Some price_max \<Rightarrow> price r \<le> price_max))"

definition no_params :: query_params where
  "no_params = \<lparr>qp_search = None, qp_price = None\<rparr>"

text \<open>\<open>get_object\<close>: the row of the key among the rows that \<open>get_queryset\<close> leaves.\<close>

definition product_get_object :: "db \<Rightarrow> query_params \<Rightarrow> nat \<Rightarrow> exn + product" where
  "product_get_object st qp pk =
     (case products st pk of
        None \<Rightarrow> Inl Http404
      | Some r \<Rightarrow> if product_matches qp r then Inr r else Inl Http404)"

definition product_perform_update ::
  "db \<Rightarrow> bool \<Rightarrow> string \<Rightarrow> nat option \<Rightarrow> query_params \<Rightarrow> nat \<Rightarrow> body \<Rightarrow>
   (exn + product data_response) \<times> db" where
  "product_perform_update st partial msg user qp pk data =
     (case user of
        None \<Rightarrow> (Inl NotAuthenticated, st)
      | Some u \<Rightarrow>
          (case product_get_object st qp pk of
             Inl e \<Rightarrow> (Inl e, st)
           | Inr instance \<Rightarrow>
               if product_user instance \<noteq> u then
                 (Inl (PermissionDenied ''You do not have permission to edit this product(s).''), st)
               else
                 (case ProductSerializer_is_valid partial data of
                    Inl e \<Rightarrow> (Inl e, st)
                  | Inr d \<Rightarrow>
                      (let saved = product_set_attrs instance d
                       in (Inr (DataResponse HTTP_200_OK msg saved),
                           st\<lparr>products := (products st)(pk \<mapsto> saved)\<rparr>)))))"

definition ProductViewSet_update ::
  "db \<Rightarrow> nat option \<Rightarrow> query_params \<Rightarrow> nat \<Rightarrow> body \<Rightarrow> (exn + product data_response) \<times> db" where
  "ProductViewSet_update st user qp pk data =
     product_perform_update st False ''Product updated successfully!'' user qp pk data"

definition ProductViewSet_partial_update ::
  "db \<Rightarrow> nat option \<Rightarrow> query_params \<Rightarrow> nat \<Rightarrow> body \<Rightarrow> (exn + product data_response) \<times> db" where
  "ProductViewSet_partial_update st user qp pk data =
     product_perform_update st True ''Product partially updated!'' user qp pk data"

text \<open>
  \<open>perform_destroy\<close> deletes the row and, by \<open>on_delete=CASCADE\<close>, the orders, reviews
  and rates of the product.
\<close>

definition product_delete :: "db \<Rightarrow> nat \<Rightarrow> db" where
  "product_delete st pk =
     st\<lparr>products := (products st)(pk := None),
        orders := filter (\<lambda>r. order_product r \<noteq> pk) (orders st),
        reviews := (\<lambda>k. case reviews st k of
                           None \<Rightarrow> None
                         | Some r \<Rightarrow> if review_product r = pk then None else Some r),
        rates := filter (\<lambda>r. rate_product r \<noteq> pk) (rates st)\<rparr>"

definition ProductViewSet_destroy ::
  "db \<Rightarrow> nat option \<Rightarrow> query_params \<Rightarrow> nat \<Rightarrow> (exn + response) \<times> db" where
  "ProductViewSet_destroy st user qp pk =
     (case user of
        None \<Rightarrow> (Inl NotAuthenticated, st)
      | Some u \<Rightarrow>
          (case product_get_object st qp pk of
             Inl e \<Rightarrow> (Inl e, st)
           | Inr instance \<Rightarrow>
               if product_user instance \<noteq> u then
                 (Inl (PermissionDenied ''You do not have permission to delete this product(s)''), st)
               else
                 (Inr (Response HTTP_204_NO_CONTENT ''Product(s) deleted successfully!''),
                  product_delete st pk)))"

section \<open>Reviews and ratings (\<open>ReviewViewSet\<close>, \<open>get_average_rating\<close>)\<close>

text \<open>
  \<open>ReviewSerializer\<close> has the fields \<open>product\<close>, \<open>review\<close> and the read-only
  \<open>review_date\<close>. The text of a review may be blank or null and has at most 100
  characters.
\<close>

record review_data =
  rd_product :: "nat option"
  rd_review :: "string option option"

definition review_text_field :: "pyval \<Rightarrow> string + string option" where
  "review_text_field v =
     (case v of
        PyNone \<Rightarrow> Inr None
      | _ \<Rightarrow> bind_field (char_field True (Some 100) v) (\<lambda>t. Inr (Some t)))"

definition ReviewSerializer_fields :: "string list" where
  "ReviewSerializer_fields = [''product'', ''review'', ''review_date'']"

definition ReviewSerializer_read_only_fields :: "string list" where
  "ReviewSerializer_read_only_fields = [''review_date'']"

definition ReviewSerializer_is_valid :: "db \<Rightarrow> bool \<Rightarrow> body \<Rightarrow> exn + review_data" where
  "ReviewSerializer_is_valid st partial data =
     (let d = data |` (set ReviewSerializer_fields - set ReviewSerializer_read_only_fields);
          (e1, p) = run_field partial True d ''product'' (product_field st);
          (e2, t) = run_field partial False d ''review'' review_text_field
      in if e1 @ e2 = [] then Inr \<lparr>rd_product = p, rd_review = t\<rparr>
         else Inl (ValidationError (e1 @ e2)))"

definition review_set_attrs :: "review \<Rightarrow> review_data \<Rightarrow> review" where
  "review_set_attrs r d =
     r\<lparr>review_product := (case rd_product d of None \<Rightarrow> review_product r | Some v \<Rightarrow> v),
       review_text := (case rd_review d of None \<Rightarrow> review_text r | Some v \<Rightarrow> v)\<rparr>"

definition review_get_object :: "db \<Rightarrow> nat \<Rightarrow> exn + review" where
  "review_get_object st pk = (case reviews st pk of None \<Rightarrow> Inl Http404 | Some r \<Rightarrow> Inr r)"

definition review_perform_update ::
  "db \<Rightarrow> bool \<Rightarrow> string \<Rightarrow> nat option \<Rightarrow> nat \<Rightarrow> body \<Rightarrow> (exn + review data_response) \<times> db" where
  "review_perform_update st partial msg user pk data =
     (case user of
        None \<Rightarrow> (Inl NotAuthenticated, st)
      | Some u \<Rightarrow>
          (case review_get_object st pk of
             Inl e \<Rightarrow> (Inl e, st)
           | Inr instance \<Rightarrow>
               if review_user instance \<noteq> u then
                 (Inl (PermissionDenied ''You do not have permission to edit this review.''), st)
               else
                 (case ReviewSerializer_is_valid st partial data of
                    Inl e \<Rightarrow> (Inl e, st)
                  | Inr d \<Rightarrow>
                      (let saved = review_set_attrs instance d
                       in (Inr (DataResponse HTTP_200_OK msg saved),
                           st\<lparr>reviews := (reviews st)(pk \<mapsto> saved)\<rparr>)))))"

definition ReviewViewSet_update ::
  "db \<Rightarrow> nat option \<Rightarrow> nat \<Rightarrow> body \<Rightarrow> (exn + review data_response) \<times> db" where
  "ReviewViewSet_update st user pk data =
     review_perform_update st False ''Review updated successfully!'' user pk data"

definition ReviewViewSet_partial_update ::
  "db \<Rightarrow> nat option \<Rightarrow> nat \<Rightarrow> body \<Rightarrow> (exn + review data_response) \<times> db" where
  "ReviewViewSet_partial_update st user pk data =
     review_perform_update st True ''Review partially updated!'' user pk data"

definition ReviewViewSet_destroy :: "db \<Rightarrow> nat option \<Rightarrow> nat \<Rightarrow> (exn + response) \<times> db" where
  "ReviewViewSet_destroy st user pk =
     (case user of
        None \<Rightarrow> (Inl NotAuthenticated, st)
      | Some u \<Rightarrow>
          (case review_get_object st pk of
             Inl e \<Rightarrow> (Inl e, st)
           | Inr instance \<Rightarrow>
               if review_user instance \<noteq> u then
                 (Inl (PermissionDenied ''You do not have permission to delete this review.''), st)
               else
                 (Inr (Response HTTP_204_NO_CONTENT ''Review deleted successfully!''),
                  st\<lparr>reviews := (reviews st)(pk := None)\<rparr>)))"

text \<open>
  \<open>obj.ratings\<close> are the rates of the product (\<open>related_name='ratings'\<close>).
  \<open>aggregate(Avg('rating'))\<close> adds the values up and counts them in one pass; over no
  row the database answers \<open>NULL\<close>, which is \<open>None\<close>. The quotient is exact here; the
  rounding of the database's floating-point number is not modelled.
\<close>

definition ratings_of :: "db \<Rightarrow> nat \<Rightarrow> int list" where
  "ratings_of st pk = map rating (filter (\<lambda>r. rate_product r = pk) (rates st))"

definition aggregate_Avg :: "int list \<Rightarrow> rat option" where
  "aggregate_Avg xs =
     (case fold (\<lambda>x (s, n). (s + x, Suc n)) xs (0, 0) of
        (s, n) \<Rightarrow> if n = 0 then None else Some (of_int s / of_nat n))"

definition get_average_rating :: "db \<Rightarrow> nat \<Rightarrow> rat" where
  "get_average_rating st pk =
     (let avg_rating = aggregate_Avg (ratings_of st pk)
      in case avg_rating of Some a \<Rightarrow> a | None \<Rightarrow> 0)"

text \<open>The specification's words: the arithmetic mean is the sum over the number of values.\<close>

definition arithmetic_mean :: "int list \<Rightarrow> rat" where
  "arithmetic_mean xs = of_int (sum_list xs) / of_nat (length xs)"

section \<open>Accounts and tokens (\<open>LoginSerializer\<close>, \<open>login\<close>, \<open>LogoutAPIView\<close>)\<close>

text \<open>
  \<open>authenticate(username=..., password=...)\<close>: the user of that name, if the password
  checks against the stored one and the account is active. How a password is hashed
  and checked is the framework's matter; \<open>check_password raw stored\<close> stands for it.
\<close>

definition authenticate ::
  "(string \<Rightarrow> string \<Rightarrow> bool) \<Rightarrow> db \<Rightarrow> string \<Rightarrow> string \<Rightarrow> custom_user option" where
  "authenticate check_password st uname pw =
     (case filter (\<lambda>u. username u = uname) (users st) of
        [u] \<Rightarrow> if check_password pw (password u) \<and> is_active u then Some u else None
      | _ \<Rightarrow> None)"

text \<open>
  \<open>LoginSerializer\<close>: two required text fields, then \<open>validate\<close>, which authenticates
  and puts the user into the data.
\<close>

definition LoginSerializer_validate ::
  "(string \<Rightarrow> string \<Rightarrow> bool) \<Rightarrow> db \<Rightarrow> string \<Rightarrow> string \<Rightarrow> exn + custom_user" where
  "LoginSerializer_validate check_password st uname pw =
     (case authenticate check_password st uname pw of
        None \<Rightarrow> Inl (ValidationError [(''message'', ''Invalid username or password'')])
      | Some user \<Rightarrow> Inr user)"

definition text_field :: "pyval \<Rightarrow> string + string" where
  "text_field v = char_field False None v"

definition LoginSerializer_is_valid ::
  "(string \<Rightarrow> string \<Rightarrow> bool) \<Rightarrow> db \<Rightarrow> body \<Rightarrow> exn + custom_user" where
  "LoginSerializer_is_valid check_password st data =
     (let (e1, n) = run_field False True data ''username'' text_field;
          (e2, p) = run_field False True data ''password'' text_field
      in case (n, p) of
           (Some uname, Some pw) \<Rightarrow> LoginSerializer_validate check_password st uname pw
         | _ \<Rightarrow> Inl (ValidationError (e1 @ e2)))"

text \<open>
  \<open>Token.objects.get_or_create(user=user)\<close>: the user's token row if there is one;
  otherwise a row with a newly generated key. The key comes from the system's random
  source, so it is an input here (\<open>fresh\<close>); the key is the table's primary key, and a
  key that is taken is an \<open>IntegrityError\<close>.
\<close>

definition token_get_or_create :: "db \<Rightarrow> nat \<Rightarrow> string \<Rightarrow> (exn + string) \<times> db" where
  "token_get_or_create st u fresh =
     (case filter (\<lambda>(u', k). u' = u) (tokens st) of
        [] \<Rightarrow>
          if fresh \<in> snd ` set (tokens st) then (Inl IntegrityError, st)
          else (Inr fresh, st\<lparr>tokens := tokens st @ [(u, fresh)]\<rparr>)
      | [(_, k)] \<Rightarrow> (Inr k, st)
      | _ \<Rightarrow> (Inl MultipleObjectsReturned, st))"

text \<open>What the \<open>login\<close> view sends: the token with status 200, or the errors with 400.\<close>

datatype login_data = Token string | Errors "(string \<times> string) list"

definition login ::
  "(string \<Rightarrow> string \<Rightarrow> bool) \<Rightarrow> db \<Rightarrow> string \<Rightarrow> body \<Rightarrow> (exn + login_data data_response) \<times> db" where
  "login check_password st fresh data =
     (case LoginSerializer_is_valid check_password st data of
        Inl (ValidationError errors) \<Rightarrow>
          (Inr (DataResponse HTTP_400_BAD_REQUEST [] (Errors errors)), st)
      | Inl e \<Rightarrow> (Inl e, st)
      | Inr user \<Rightarrow>
          (case token_get_or_create st (user_pk user) fresh of
             (Inl e, st1) \<Rightarrow> (Inl e, st1)
           | (Inr key, st1) \<Rightarrow>
               (Inr (DataResponse HTTP_200_OK ''Login successful'' (Token key)), st1)))"

text \<open>
  \<open>LogoutAPIView.post\<close>: \<open>request.user.auth_token.delete()\<close>; a user without a token
  gets \<open>Token.DoesNotExist\<close>, which the view answers with status 400.
\<close>

definition logout :: "db \<Rightarrow> nat option \<Rightarrow> (exn + response) \<times> db" where
  "logout st user =
     (case user of
        None \<Rightarrow> (Inl NotAuthenticated, st)
      | Some u \<Rightarrow>
          (case filter (\<lambda>(u', k). u' = u) (tokens st) of
             [] \<Rightarrow> (Inr (Response HTTP_400_BAD_REQUEST ''Token does not exist''), st)
           | [row] \<Rightarrow>
               (Inr (Response HTTP_200_OK ''You have successfully logged out''),
                st\<lparr>tokens := filter (\<lambda>(u', k). u' \<noteq> u) (tokens st)\<rparr>)
           | _ \<Rightarrow> (Inl MultipleObjectsReturned, st)))"

text \<open>A run of the two views: logins with their bodies and candidate keys, and logouts.\<close>

datatype identity_op = Login string body | Logout "nat option"

fun identity_step :: "(string \<Rightarrow> string \<Rightarrow> bool) \<Rightarrow> db \<Rightarrow> identity_op \<Rightarrow> db" where
  "identity_step check_password st (Login fresh data) = snd (login check_password st fresh data)"
| "identity_step check_password st (Logout user) = snd (logout st user)"

definition identity_run :: "(string \<Rightarrow> string \<Rightarrow> bool) \<Rightarrow> db \<Rightarrow> identity_op list \<Rightarrow> db" where
  "identity_run check_password st ops = foldl (identity_step check_password) st ops"

text \<open>The examples' password check and login bodies.\<close>

definition demo_check :: "string \<Rightarrow> string \<Rightarrow> bool" where
  "demo_check raw stored = (stored = ''hash:'' @ raw)"

definition login_body :: "string \<Rightarrow> string \<Rightarrow> body" where
  "login_body n p = [''username'' \<mapsto> PyStr n, ''password'' \<mapsto> PyStr p]"

text \<open>\<open>holds_token st u t\<close>: the token table has one row for user \<open>u\<close>, with key \<open>t\<close>.\<close>

definition holds_token :: "db \<Rightarrow> nat \<Rightarrow> string \<Rightarrow> bool" where
  "holds_token st u t = (filter (\<lambda>(u', k). u' = u) (tokens st) = [(u, t)])"

text \<open>More example data: a review by user 3, some ratings, and two product bodies.\<close>

definition demo_review :: review where
  "demo_review = \<lparr>review_product = 1, review_user = 3, review_text = Some ''Nice'', review_date = 0\<rparr>"

definition reviewed_db :: db where
  "reviewed_db = demo_db\<lparr>reviews := [7 \<mapsto> demo_review]\<rparr>"

definition rated_db :: db where
  "rated_db =
     demo_db\<lparr>rates := [\<lparr>rate_user = 2, rate_product = 1, rating = 4\<rparr>,
                       \<lparr>rate_user = 3, rate_product = 1, rating = 5\<rparr>,
                       \<lparr>rate_user = 2, rate_product = 2, rating = 1\<rparr>,
                       \<lparr>rate_user = 1, rate_product = 1, rating = 3\<rparr>]\<rparr>"

text \<open>The query parameters of a request that carries \<open>?search=zzz\<close>.\<close>

definition zzz_params :: query_params where
  "zzz_params = \<lparr>qp_search = Some ''zzz'', qp_price = None\<rparr>"

definition price_body :: body where
  "price_body = [''price'' \<mapsto> PyStr ''19.99'']"

definition product_body :: body where
  "product_body =
     [''name'' \<mapsto> PyStr ''Socks'', ''price'' \<mapsto> PyStr ''9.99'', ''description'' \<mapsto> PyStr ''Warm'',
      ''category'' \<mapsto> PyStr ''socks'', ''stock_quantity'' \<mapsto> PyStr ''10'']"

definition forged_body :: body where
  "forged_body = product_body(''user'' \<mapsto> PyInt 3, ''created_date'' \<mapsto> PyInt 0)"

definition demo_ops :: "identity_op list" where
  "demo_ops =
     [Login ''k2'' (login_body ''ann'' ''ann''), Login ''k3'' (login_body ''bob'' ''bob''),
      Logout (Some 1), Login ''k4'' (login_body ''bob'' ''wrong'')]"

section \<open>Properties of the order workflow\<close>

lemmas order_eval =
  Let_def create_order_def data_get_def int_of_str_def is_space_def digit_val_def
  order_get_or_create_def orders_of_def quantity_body_def positive_integer_write_def
  demo_db_def demo_product_def ordered_db_def doubled_db_def
  Created_def AlreadyExists_def InsufficientStock_def QuantityRequired_def InvalidQuantity_def

lemma create_order_stock_nonneg:
  "stock_nonneg st \<Longrightarrow> stock_nonneg (snd (create_order st user pk data))"
  unfolding stock_nonneg_def create_order_def order_get_or_create_def
  by (auto simp: Let_def
      split: option.splits sum.splits exn.splits list.splits if_splits prod.splits)

text \<open>
  Claim C1. If no product has a negative \<open>stock_quantity\<close>, then after any sequence
  of \<open>create_order\<close> calls, whatever their callers, products and bodies and whether
  they succeed or fail, no product has a negative \<open>stock_quantity\<close>.
\<close>

theorem stock_never_negative:
  "stock_nonneg st \<Longrightarrow> stock_nonneg (place_orders st rs)"
proof (induction rs arbitrary: st)
  case Nil
  then show ?case by simp
next
  case (Cons r rs)
  obtain user pk data where r: "r = (user, pk, data)"
    by (cases r) auto
  from Cons.prems have "stock_nonneg (snd (create_order st user pk data))"
    by (rule create_order_stock_nonneg)
  then show ?case
    unfolding r by (simp add: Cons.IH)
qed

theorem stock_never_negative_witness:
  "stock_nonneg demo_db \<and>
   stock_nonneg (place_orders demo_db
     [(Some 2, 1, quantity_body ''3''), (Some 2, 1, quantity_body ''1''),
      (Some 3, 1, quantity_body ''9''), (None, 1, quantity_body ''1'')])"
proof -
  have h: "stock_nonneg demo_db"
    by (simp add: stock_nonneg_def demo_db_def demo_product_def)
  from stock_never_negative [OF h] h show ?thesis
    by blast
qed

text \<open>
  The specification's scenario, run: five in stock, user 2 orders three and then one more,
  user 3 asks for nine. One piece and one order row are left.
\<close>

lemma scenario_run:
  "place_orders demo_db
     [(Some 2, 1, quantity_body ''3''), (Some 2, 1, quantity_body ''1''),
      (Some 3, 1, quantity_body ''9'')] =
   ordered_db\<lparr>products := [1 \<mapsto> demo_product\<lparr>stock_quantity := 1\<rparr>]\<rparr>"
  by (simp add: order_eval)

lemma py_int_pos_truthy: "py_int v = Inr q \<Longrightarrow> 0 < q \<Longrightarrow> truthy v"
  by (cases v)
     (auto simp: int_of_str_def trunc_hundredths_def split: option.splits if_splits)

text \<open>
  Claim C2. For a product with stock \<open>s \<ge> 0\<close> and a request whose quantity reads as
  an integer \<open>q > s\<close>, \<open>create_order\<close> answers \<open>InsufficientStock\<close> and returns the
  database as it was: no stock and no other table has changed.
\<close>

theorem insufficient_stock_rejected:
  assumes "products st pk = Some p" and "0 \<le> stock_quantity p"
    and "py_int (data_get data ''quantity'') = Inr q" and "stock_quantity p < q"
  shows "create_order st (Some u) pk data = (InsufficientStock, st)"
proof -
  have "truthy (data_get data ''quantity'')"
    using assms py_int_pos_truthy by force
  with assms show ?thesis
    by (simp add: create_order_def InsufficientStock_def)
qed

theorem insufficient_stock_rejected_witness:
  "create_order demo_db (Some 3) 1 (quantity_body ''9'') = (InsufficientStock, demo_db)"
  using insufficient_stock_rejected [of demo_db 1 demo_product "quantity_body ''9''" 9 3]
  by (simp add: order_eval)




text \<open>
  A quantity below \<open>-2\<^sup>6\<^sup>3\<close> passes the stock check, and the raised stock cannot be
  written: the request ends in \<open>OverflowError\<close> with nothing changed.
\<close>

lemma huge_negative_quantity_overflows:
  "create_order ordered_db (Some 2) 1 [''quantity'' \<mapsto> PyInt (- (2 ^ 63))] =
     (Inl OverflowError, ordered_db)"
  by (simp add: order_eval)

lemma orders_create_order_cases:
  "orders (snd (create_order st user pk data)) = orders st \<or>
   (\<exists>u q. user = Some u \<and> orders_of (orders st) u pk = [] \<and>
      orders (snd (create_order st user pk data)) =
        orders st @ [\<lparr>order_pk = next_pk st, order_product = pk, quantity = q, order_user = u\<rparr>])"
  unfolding create_order_def order_get_or_create_def
  by (auto simp: Let_def
      split: option.splits sum.splits exn.splits list.splits if_splits prod.splits)

lemma create_order_one_per_pair:
  assumes "one_order_per_pair st"
  shows "one_order_per_pair (snd (create_order st user pk data))"
proof -
  from orders_create_order_cases [of st user pk data]
  show ?thesis
  proof
    assume "orders (snd (create_order st user pk data)) = orders st"
    with assms show ?thesis
      by (simp add: one_order_per_pair_def)
  next
    assume "\<exists>u q. user = Some u \<and> orders_of (orders st) u pk = [] \<and>
      orders (snd (create_order st user pk data)) =
        orders st @ [\<lparr>order_pk = next_pk st, order_product = pk, quantity = q, order_user = u\<rparr>]"
    then obtain u q where none: "orders_of (orders st) u pk = []"
      and new: "orders (snd (create_order st user pk data)) =
        orders st @ [\<lparr>order_pk = next_pk st, order_product = pk, quantity = q, order_user = u\<rparr>]"
      by blast
    show ?thesis
      unfolding one_order_per_pair_def
    proof (intro allI)
      fix u' p'
      have old: "length (orders_of (orders st) u' p') \<le> 1"
        using assms by (simp add: one_order_per_pair_def)
      show "length (orders_of (orders (snd (create_order st user pk data))) u' p') \<le> 1"
      proof (cases "u' = u \<and> p' = pk")
        case True
        with none new show ?thesis
          by (simp add: orders_of_def)
      next
        case False
        with old new show ?thesis
          by (auto simp: orders_of_def)
      qed
    qed
  qed
qed

lemma place_orders_one_per_pair:
  "one_order_per_pair st \<Longrightarrow> one_order_per_pair (place_orders st rs)"
proof (induction rs arbitrary: st)
  case Nil
  then show ?case by simp
next
  case (Cons r rs)
  obtain user pk data where r: "r = (user, pk, data)"
    by (cases r) auto
  from Cons.prems have "one_order_per_pair (snd (create_order st user pk data))"
    by (rule create_order_one_per_pair)
  then show ?case
    unfolding r by (simp add: Cons.IH)
qed

lemma repeat_order_rejected:
  assumes "orders_of (orders st) u pk \<noteq> []"
  shows "orders (snd (create_order st (Some u) pk data)) = orders st"
    and "fst (create_order st (Some u) pk data) \<noteq> Created"
  using assms unfolding create_order_def order_get_or_create_def Created_def
    HTTP_201_CREATED_def HTTP_400_BAD_REQUEST_def
  by (auto simp: Let_def
      split: option.splits sum.splits exn.splits list.splits if_splits prod.splits)

text \<open>
  Claim C5, as the code has it. The order workflow keeps at most one row per pair: from
  a database with at most one order row for every (user, product), any sequence of
  \<open>create_order\<close> calls leaves at most one row for every pair, and a \<open>create_order\<close>
  for a pair that has a row is not answered \<open>Created\<close> and leaves the order table as
  it was. Nothing is said of rows that reach the table by another way.
\<close>

theorem workflow_one_order_per_pair:
  "(one_order_per_pair st \<longrightarrow> one_order_per_pair (place_orders st rs)) \<and>
   (orders_of (orders st) u pk \<noteq> [] \<longrightarrow>
      orders (snd (create_order st (Some u) pk data)) = orders st \<and>
      fst (create_order st (Some u) pk data) \<noteq> Created)"
  using place_orders_one_per_pair [of st rs] repeat_order_rejected [of st u pk data]
  by blast

theorem workflow_one_order_per_pair_witness:
  "one_order_per_pair ordered_db \<and>
   one_order_per_pair (place_orders ordered_db
     [(Some 2, 1, quantity_body ''1''), (Some 3, 1, quantity_body ''1'')]) \<and>
   orders_of (orders ordered_db) 2 1 \<noteq> [] \<and>
   orders (snd (create_order ordered_db (Some 2) 1 (quantity_body ''1''))) = orders ordered_db \<and>
   fst (create_order ordered_db (Some 2) 1 (quantity_body ''1'')) \<noteq> Created"
proof -
  have a: "one_order_per_pair ordered_db"
    by (simp add: one_order_per_pair_def orders_of_def ordered_db_def demo_db_def)
  have b: "orders_of (orders ordered_db) 2 1 \<noteq> []"
    by (simp add: orders_of_def ordered_db_def demo_db_def)
  from workflow_one_order_per_pair
    [of ordered_db "[(Some 2, 1, quantity_body ''1''), (Some 3, 1, quantity_body ''1'')]"
        2 1 "quantity_body ''1''"] a b
  show ?thesis
    by blast
qed

lemma order_body_valid:
  "OrderSerializer_is_valid demo_db False order_body =
     Inr \<lparr>od_product = Some 1, od_quantity = Some 1, od_user = Some 2\<rparr>"
  by code_simp

lemma order_body_valid_again:
  "OrderSerializer_is_valid once_db False order_body =
     Inr \<lparr>od_product = Some 1, od_quantity = Some 1, od_user = Some 2\<rparr>"
  by code_simp

lemma raw_create_once:
  "OrderViewSet_create demo_db (Some 2) order_body =
     (Inr (DataResponse HTTP_201_CREATED []
        \<lparr>order_pk = 10, order_product = 1, quantity = 1, order_user = 2\<rparr>),
      once_db)"
  by (simp add: OrderViewSet_create_def order_body_valid Let_def)
     (simp add: once_db_def demo_db_def)

lemma raw_create_twice:
  "OrderViewSet_create once_db (Some 2) order_body =
     (Inr (DataResponse HTTP_201_CREATED []
        \<lparr>order_pk = 11, order_product = 1, quantity = 1, order_user = 2\<rparr>),
      doubled_db)"
  by (simp add: OrderViewSet_create_def order_body_valid_again Let_def)
     (simp add: once_db_def doubled_db_def demo_db_def)

text \<open>
  The claim as stated fails: \<open>POST /orders/\<close>, sent twice with the same body, leaves
  two order rows for the pair (user 2, product 1), and the stock is the old one.
\<close>

theorem raw_create_duplicates_order:
  "orders demo_db = [] \<and>
   orders (snd (OrderViewSet_create (snd (OrderViewSet_create demo_db (Some 2) order_body))
                  (Some 2) order_body)) =
     [\<lparr>order_pk = 10, order_product = 1, quantity = 1, order_user = 2\<rparr>,
      \<lparr>order_pk = 11, order_product = 1, quantity = 1, order_user = 2\<rparr>] \<and>
   products (snd (OrderViewSet_create (snd (OrderViewSet_create demo_db (Some 2) order_body))
                  (Some 2) order_body)) = products demo_db"
  by (simp add: raw_create_once raw_create_twice) (simp add: doubled_db_def demo_db_def)

section \<open>Properties of the quantity check\<close>

lemma quantity_absent_required:
  assumes "products st pk = Some p" and "data ''quantity'' = None"
  shows "create_order st (Some u) pk data = (QuantityRequired, st)"
  using assms by (simp add: create_order_def data_get_def QuantityRequired_def)

lemma quantity_unreadable_invalid:
  assumes "products st pk = Some p" and "data ''quantity'' = Some (PyStr s)"
    and "s \<noteq> []" and "int_of_str s = None"
  shows "create_order st (Some u) pk data = (InvalidQuantity, st)"
  using assms by (simp add: create_order_def data_get_def InvalidQuantity_def)

text \<open>
  Claim C4 asks that no placement goes on with a quantity that is not positive. The
  code reads the text \<open>0\<close> as the integer 0, finds the stock sufficient and creates an
  order row of quantity 0 with the answer \<open>Created\<close>.
\<close>

theorem zero_quantity_order_created:
  "create_order demo_db (Some 2) 1 (quantity_body ''0'') =
     (Created,
      demo_db\<lparr>orders := [\<lparr>order_pk = 10, order_product = 1, quantity = 0, order_user = 2\<rparr>],
              next_pk := 11\<rparr>)"
  by (simp add: order_eval)

text \<open>
  A negative quantity passes the stock check as well: the stock goes up and is saved,
  and only the new order row is refused by the database.
\<close>

lemma negative_quantity_raises_stock:
  "create_order demo_db (Some 2) 1 (quantity_body ''-2'') =
     (Inl IntegrityError, demo_db\<lparr>products := [1 \<mapsto> demo_product\<lparr>stock_quantity := 7\<rparr>]\<rparr>)"
  by (simp add: order_eval)

text \<open>A list as quantity is neither refused as missing nor as unreadable: \<open>TypeError\<close>.\<close>

lemma list_quantity_type_error:
  "create_order demo_db (Some 2) 1 [''quantity'' \<mapsto> PyList [PyInt 1]] =
     (Inl TypeError, demo_db)"
  by (simp add: order_eval)

section \<open>Properties of the other order views\<close>

lemma order_lookup_raises:
  "order_lookup st pk u =
     Inl (ValueError ''First argument to get_object_or_404() must be a Model, Manager, or QuerySet, not NoneType.'')"
  by (simp add: order_lookup_def OrderViewSet_queryset_def get_object_or_404_def)

lemma order_detail_views_raise:
  "\<exists>m. OrderViewSet_retrieve st (Some u) pk = Inl (ValueError m) \<and>
       OrderViewSet_update st (Some u) pk data = (Inl (ValueError m), st) \<and>
       OrderViewSet_partial_update st (Some u) pk data = (Inl (ValueError m), st) \<and>
       OrderViewSet_destroy st (Some u) pk = (Inl (ValueError m), st)"
  by (simp add: OrderViewSet_retrieve_def OrderViewSet_update_def
      OrderViewSet_partial_update_def OrderViewSet_destroy_def order_perform_update_def
      order_lookup_raises)

text \<open>
  Claim C7 asks for \<open>NotFound\<close> when a user reads another user's order. Order 10
  belongs to user 2; user 3 reading it gets the \<open>ValueError\<close> of
  \<open>get_object_or_404\<close>, which is not \<open>Http404\<close>.
\<close>

theorem foreign_order_retrieve_raises:
  "OrderViewSet_retrieve ordered_db (Some 3) 10 =
     Inl (ValueError ''First argument to get_object_or_404() must be a Model, Manager, or QuerySet, not NoneType.'') \<and>
   OrderViewSet_retrieve ordered_db (Some 3) 10 \<noteq> Inl Http404"
  by (simp add: OrderViewSet_retrieve_def order_lookup_raises)

section \<open>Properties of the ownership checks\<close>

lemma digits_of_digit: "0 < fuel \<Longrightarrow> n < 10 \<Longrightarrow> digits_of fuel n = [char_of (48 + n)]"
  by (cases fuel) auto

lemmas matches_eval =
  icontains_def lower_def str_of_int_def digits_of_digit Let_def

lemmas ownership_eval =
  ProductViewSet_update_def ProductViewSet_partial_update_def
  ProductViewSet_destroy_def product_perform_update_def product_get_object_def
  ReviewViewSet_update_def ReviewViewSet_partial_update_def ReviewViewSet_destroy_def
  review_perform_update_def review_get_object_def

text \<open>
  Claim C6, as the code has it. An authenticated user who is not the owner of a
  product that the request's query set holds (every product, when the request has no
  \<open>search\<close> or \<open>price\<close> parameter), or of a review, gets \<open>PermissionDenied\<close> from
  \<open>update\<close>, \<open>partial_update\<close> and \<open>destroy\<close>, whatever the body. A product that the
  parameters filter out is not found instead. In every case the database is returned
  as it was.
\<close>

theorem non_owner_denied:
  "(products st pk = Some p \<and> product_matches qp p \<and> product_user p \<noteq> u \<longrightarrow>
      ProductViewSet_update st (Some u) qp pk data =
        (Inl (PermissionDenied ''You do not have permission to edit this product(s).''), st) \<and>
      ProductViewSet_partial_update st (Some u) qp pk data =
        (Inl (PermissionDenied ''You do not have permission to edit this product(s).''), st) \<and>
      ProductViewSet_destroy st (Some u) qp pk =
        (Inl (PermissionDenied ''You do not have permission to delete this product(s)''), st)) \<and>
   (products st pk = Some p \<and> \<not> product_matches qp p \<and> product_user p \<noteq> u \<longrightarrow>
      ProductViewSet_update st (Some u) qp pk data = (Inl Http404, st) \<and>
      ProductViewSet_partial_update st (Some u) qp pk data = (Inl Http404, st) \<and>
      ProductViewSet_destroy st (Some u) qp pk = (Inl Http404, st)) \<and>
   (reviews st rk = Some r \<and> review_user r \<noteq> u \<longrightarrow>
      ReviewViewSet_update st (Some u) rk data =
        (Inl (PermissionDenied ''You do not have permission to edit this review.''), st) \<and>
      ReviewViewSet_partial_update st (Some u) rk data =
        (Inl (PermissionDenied ''You do not have permission to edit this review.''), st) \<and>
      ReviewViewSet_destroy st (Some u) rk =
        (Inl (PermissionDenied ''You do not have permission to delete this review.''), st))"
  by (simp add: ownership_eval)

theorem non_owner_denied_witness:
  "ProductViewSet_update reviewed_db (Some 2) no_params 1 price_body =
     (Inl (PermissionDenied ''You do not have permission to edit this product(s).''), reviewed_db) \<and>
   ProductViewSet_partial_update reviewed_db (Some 2) no_params 1 price_body =
     (Inl (PermissionDenied ''You do not have permission to edit this product(s).''), reviewed_db) \<and>
   ProductViewSet_destroy reviewed_db (Some 2) no_params 1 =
     (Inl (PermissionDenied ''You do not have permission to delete this product(s)''), reviewed_db) \<and>
   ReviewViewSet_update reviewed_db (Some 2) 7 price_body =
     (Inl (PermissionDenied ''You do not have permission to edit this review.''), reviewed_db) \<and>
   ReviewViewSet_partial_update reviewed_db (Some 2) 7 price_body =
     (Inl (PermissionDenied ''You do not have permission to edit this review.''), reviewed_db) \<and>
   ReviewViewSet_destroy reviewed_db (Some 2) 7 =
     (Inl (PermissionDenied ''You do not have permission to delete this review.''), reviewed_db) \<and>
   ProductViewSet_update reviewed_db (Some 2) zzz_params 1 price_body = (Inl Http404, reviewed_db) \<and>
   ProductViewSet_partial_update reviewed_db (Some 2) zzz_params 1 price_body =
     (Inl Http404, reviewed_db) \<and>
   ProductViewSet_destroy reviewed_db (Some 2) zzz_params 1 = (Inl Http404, reviewed_db)"
  using non_owner_denied [of reviewed_db 1 demo_product no_params 2 price_body 7 demo_review]
    non_owner_denied [of reviewed_db 1 demo_product zzz_params 2 price_body 7 demo_review]
  by (simp add: reviewed_db_def demo_db_def demo_product_def demo_review_def
      product_matches_def no_params_def zzz_params_def matches_eval)

text \<open>
  The claim as stated fails: user 2 does not own product 1, and the request
  \<open>DELETE /products/1/?search=zzz\<close> (or \<open>PUT\<close>, or \<open>PATCH\<close>) is answered with
  \<open>Http404\<close>, since \<open>get_object\<close> looks the product up among the filtered rows before
  the owner is compared.
\<close>

theorem non_owner_filtered_not_found:
  "products demo_db 1 = Some demo_product \<and> product_user demo_product \<noteq> 2 \<and>
   ProductViewSet_destroy demo_db (Some 2) zzz_params 1 = (Inl Http404, demo_db) \<and>
   ProductViewSet_update demo_db (Some 2) zzz_params 1 price_body = (Inl Http404, demo_db) \<and>
   ProductViewSet_partial_update demo_db (Some 2) zzz_params 1 price_body = (Inl Http404, demo_db)"
  by (simp add: ownership_eval demo_db_def demo_product_def product_matches_def zzz_params_def
      matches_eval)

text \<open>The owner's request goes through: user 1 changes the price of the product.\<close>

lemma price_body_valid:
  "ProductSerializer_is_valid True price_body =
     Inr \<lparr>pd_name = None, pd_price = Some 1999, pd_description = None, pd_image = None,
          pd_stock_quantity = None, pd_category = None, pd_user = None\<rparr>"
  by code_simp

lemma owner_partial_update:
  "ProductViewSet_partial_update demo_db (Some 1) no_params 1 price_body =
     (Inr (DataResponse HTTP_200_OK ''Product partially updated!'' (demo_product\<lparr>price := 1999\<rparr>)),
      demo_db\<lparr>products := [1 \<mapsto> demo_product\<lparr>price := 1999\<rparr>]\<rparr>)"
  by (simp add: ProductViewSet_partial_update_def product_perform_update_def
      product_get_object_def product_matches_def no_params_def price_body_valid
      product_set_attrs_def demo_db_def demo_product_def Let_def)

section \<open>Properties of the average rating\<close>

lemma fold_sum_count:
  "fold (\<lambda>x (s, n). (s + x, Suc n)) xs (s0 :: int, n0) = (s0 + sum_list xs, n0 + length xs)"
  by (induction xs arbitrary: s0 n0) auto

lemma aggregate_Avg_mean:
  "aggregate_Avg xs = (if xs = [] then None else Some (arithmetic_mean xs))"
  by (simp add: aggregate_Avg_def fold_sum_count arithmetic_mean_def)

text \<open>
  Claim C8. \<open>get_average_rating\<close> of a product is the arithmetic mean of the ratings
  of its rates, and it is 0 when the product has no rate.
\<close>

theorem average_rating_mean:
  "get_average_rating st pk =
     (if ratings_of st pk = [] then 0 else arithmetic_mean (ratings_of st pk))"
  by (simp add: get_average_rating_def aggregate_Avg_mean)

theorem average_rating_mean_witness:
  "get_average_rating rated_db 1 = 4 \<and> get_average_rating rated_db 2 = 1 \<and>
   get_average_rating rated_db 3 = 0"
  using average_rating_mean [of rated_db 1] average_rating_mean [of rated_db 2]
    average_rating_mean [of rated_db 3]
  by (simp add: ratings_of_def arithmetic_mean_def rated_db_def)

section \<open>Properties of product creation\<close>

lemma writable_fields_agree:
  assumes "\<forall>k. k \<notin> {''user'', ''created_date''} \<longrightarrow> data k = data' k"
  shows "data |` set ProductSerializer_writable_fields =
         data' |` set ProductSerializer_writable_fields"
proof
  fix k
  show "(data |` set ProductSerializer_writable_fields) k =
        (data' |` set ProductSerializer_writable_fields) k"
  proof (cases "k \<in> set ProductSerializer_writable_fields")
    case True
    then have "k \<notin> {''user'', ''created_date''}"
      by (auto simp: ProductSerializer_writable_fields_def ProductSerializer_read_only_fields_def)
    with assms show ?thesis
      by (simp add: restrict_map_def)
  next
    case False
    then show ?thesis
      by (simp add: restrict_map_def)
  qed
qed

lemma is_valid_agree:
  assumes "\<forall>k. k \<notin> {''user'', ''created_date''} \<longrightarrow> data k = data' k"
  shows "ProductSerializer_is_valid partial data = ProductSerializer_is_valid partial data'"
  unfolding ProductSerializer_is_valid_def writable_fields_agree [OF assms] ..

lemma created_product_owner:
  assumes "ProductViewSet_create st now (Some u) data = (Inr (DataResponse s m row), st')"
  shows "product_user row = u \<and> created_date row = now \<and> products st' (next_pk st) = Some row"
  using assms
  by (auto simp: ProductViewSet_create_def ProductSerializer_create_def
      Product_objects_create_def split: sum.splits option.splits)

text \<open>
  Claim C10. Two create requests by the same user, at the same time and on the same
  database, whose bodies differ at most in \<open>user\<close> and \<open>created_date\<close>, have the same
  outcome and leave the same database; a product that is created belongs to the caller
  and carries the server's time.
\<close>

theorem create_ignores_user_and_date:
  assumes "\<forall>k. k \<notin> {''user'', ''created_date''} \<longrightarrow> data k = data' k"
  shows "ProductViewSet_create st now (Some u) data = ProductViewSet_create st now (Some u) data' \<and>
         (\<forall>s m row st'. ProductViewSet_create st now (Some u) data' = (Inr (DataResponse s m row), st')
            \<longrightarrow> product_user row = u \<and> created_date row = now)"
  using is_valid_agree [OF assms] created_product_owner
  by (simp add: ProductViewSet_create_def)

lemma bodies_agree:
  "\<forall>k. k \<notin> {''user'', ''created_date''} \<longrightarrow> product_body k = forged_body k"
  by (simp add: forged_body_def)

lemma product_body_valid:
  "ProductSerializer_is_valid False product_body =
     Inr \<lparr>pd_name = Some ''Socks'', pd_price = Some 999, pd_description = Some ''Warm'',
          pd_image = None, pd_stock_quantity = Some 10, pd_category = Some ''socks'',
          pd_user = None\<rparr>"
  by code_simp

lemma product_body_created:
  "ProductViewSet_create demo_db 77 (Some 2) product_body =
     (Inr (DataResponse HTTP_201_CREATED ''Product(s) uploaded successfully!''
        \<lparr>name = ''Socks'', price = 999, description = ''Warm'', image = None,
         stock_quantity = 10, created_date = 77, category = ''socks'', product_user = 2\<rparr>),
      demo_db\<lparr>products := [1 \<mapsto> demo_product, 10 \<mapsto>
        \<lparr>name = ''Socks'', price = 999, description = ''Warm'', image = None,
         stock_quantity = 10, created_date = 77, category = ''socks'', product_user = 2\<rparr>],
        next_pk := 11\<rparr>)"
  by (simp add: ProductViewSet_create_def product_body_valid
      ProductSerializer_create_def Product_objects_create_def demo_db_def)

theorem create_ignores_user_and_date_witness:
  "ProductViewSet_create demo_db 77 (Some 2) forged_body =
     (Inr (DataResponse HTTP_201_CREATED ''Product(s) uploaded successfully!''
        \<lparr>name = ''Socks'', price = 999, description = ''Warm'', image = None,
         stock_quantity = 10, created_date = 77, category = ''socks'', product_user = 2\<rparr>),
      demo_db\<lparr>products := [1 \<mapsto> demo_product, 10 \<mapsto>
        \<lparr>name = ''Socks'', price = 999, description = ''Warm'', image = None,
         stock_quantity = 10, created_date = 77, category = ''socks'', product_user = 2\<rparr>],
        next_pk := 11\<rparr>)"
  using create_ignores_user_and_date [OF bodies_agree, of demo_db 77 2] product_body_created
  by simp

section \<open>Properties of login and logout\<close>

lemma login_effect:
  "users (snd (login cp st fresh data)) = users st \<and>
   (tokens (snd (login cp st fresh data)) = tokens st \<or>
    (\<exists>u. filter (\<lambda>(u', k). u' = u) (tokens st) = [] \<and>
         tokens (snd (login cp st fresh data)) = tokens st @ [(u, fresh)]))"
  unfolding login_def token_get_or_create_def
  by (auto split: sum.splits exn.splits list.splits prod.splits if_splits)

lemma login_keeps_token:
  assumes "holds_token st u t"
  shows "holds_token (snd (login cp st fresh data)) u t"
proof -
  from login_effect [of cp st fresh data]
  have "tokens (snd (login cp st fresh data)) = tokens st \<or>
    (\<exists>v. filter (\<lambda>(u', k). u' = v) (tokens st) = [] \<and>
         tokens (snd (login cp st fresh data)) = tokens st @ [(v, fresh)])"
    by blast
  then show ?thesis
  proof
    assume "tokens (snd (login cp st fresh data)) = tokens st"
    with assms show ?thesis
      by (simp add: holds_token_def)
  next
    assume "\<exists>v. filter (\<lambda>(u', k). u' = v) (tokens st) = [] \<and>
         tokens (snd (login cp st fresh data)) = tokens st @ [(v, fresh)]"
    then obtain v where none: "filter (\<lambda>(u', k). u' = v) (tokens st) = []"
      and new: "tokens (snd (login cp st fresh data)) = tokens st @ [(v, fresh)]"
      by blast
    from none assms have "v \<noteq> u"
      by (auto simp: holds_token_def)
    with new assms show ?thesis
      by (simp add: holds_token_def)
  qed
qed

lemma logout_effect:
  "users (snd (logout st v)) = users st \<and>
   (tokens (snd (logout st v)) = tokens st \<or>
    (\<exists>w. v = Some w \<and> tokens (snd (logout st v)) = filter (\<lambda>(u', k). u' \<noteq> w) (tokens st)))"
  unfolding logout_def
  by (auto split: option.splits list.splits)

lemma filter_other_user:
  "w \<noteq> u \<Longrightarrow>
   filter (\<lambda>(u', k). u' = u) (filter (\<lambda>(u', k). u' \<noteq> w) ts) =
   filter (\<lambda>(u', k). u' = (u::nat)) ts"
  by (induction ts) auto

lemma logout_keeps_token:
  assumes "holds_token st u t" and "v \<noteq> Some u"
  shows "holds_token (snd (logout st v)) u t"
proof -
  from logout_effect [of st v]
  have "tokens (snd (logout st v)) = tokens st \<or>
    (\<exists>w. v = Some w \<and> tokens (snd (logout st v)) = filter (\<lambda>(u', k). u' \<noteq> w) (tokens st))"
    by blast
  then show ?thesis
  proof
    assume "tokens (snd (logout st v)) = tokens st"
    with assms show ?thesis
      by (simp add: holds_token_def)
  next
    assume "\<exists>w. v = Some w \<and>
      tokens (snd (logout st v)) = filter (\<lambda>(u', k). u' \<noteq> w) (tokens st)"
    then obtain w where w: "v = Some w"
      and new: "tokens (snd (logout st v)) = filter (\<lambda>(u', k). u' \<noteq> w) (tokens st)"
      by blast
    from w assms(2) have "w \<noteq> u"
      by simp
    from filter_other_user [OF this, of "tokens st"] assms(1) show ?thesis
      unfolding holds_token_def new by simp
  qed
qed

lemma identity_step_keeps_token:
  assumes "holds_token st u t" and "op \<noteq> Logout (Some u)"
  shows "holds_token (identity_step cp st op) u t \<and> users (identity_step cp st op) = users st"
proof (cases op)
  case (Login fresh data)
  with assms login_keeps_token [of st u t cp fresh data] login_effect [of cp st fresh data]
  show ?thesis by simp
next
  case (Logout v)
  with assms logout_keeps_token [of st u t v] logout_effect [of st v]
  show ?thesis by simp
qed

lemma identity_run_keeps_token:
  assumes "holds_token st u t" and "Logout (Some u) \<notin> set ops"
  shows "holds_token (identity_run cp st ops) u t \<and> users (identity_run cp st ops) = users st"
  using assms unfolding identity_run_def
proof (induction ops arbitrary: st)
  case Nil
  then show ?case by simp
next
  case (Cons op ops)
  then have "op \<noteq> Logout (Some u)" and rest: "Logout (Some u) \<notin> set ops"
    by auto
  with Cons.prems have step: "holds_token (identity_step cp st op) u t"
    and same: "users (identity_step cp st op) = users st"
    using identity_step_keeps_token by blast+
  from Cons.IH [OF step rest] same show ?case
    by simp
qed

lemma is_valid_same_users:
  assumes same: "users st' = users st"
  shows "LoginSerializer_is_valid cp st' data = LoginSerializer_is_valid cp st data"
proof -
  have eq: "LoginSerializer_validate cp st' = LoginSerializer_validate cp st"
    by (intro ext) (simp add: LoginSerializer_validate_def authenticate_def same)
  show ?thesis
    unfolding LoginSerializer_is_valid_def eq ..
qed

lemma filter_single_key:
  assumes "filter (\<lambda>(u', k). u' = u) ts = [(a, t)]"
  shows "a = u"
proof -
  have "(a, t) \<in> set (filter (\<lambda>(u', k). u' = u) ts)"
    by (simp only: assms) simp
  then show ?thesis by simp
qed

lemma login_gives_token:
  assumes "LoginSerializer_is_valid cp st data = Inr user"
    and "login cp st fresh data = (Inr (DataResponse s m (Token t)), st1)"
  shows "holds_token st1 (user_pk user) t \<and> users st1 = users st"
  using assms unfolding login_def token_get_or_create_def holds_token_def
  by (auto split: list.splits if_splits prod.splits dest: filter_single_key)

lemma login_with_token:
  assumes "LoginSerializer_is_valid cp st data = Inr user" and "holds_token st (user_pk user) t"
  shows "login cp st fresh data =
           (Inr (DataResponse HTTP_200_OK ''Login successful'' (Token t)), st)"
  using assms by (simp add: login_def token_get_or_create_def holds_token_def)

text \<open>
  Claim C9. Let a login with valid credentials succeed with token \<open>t\<close>. After any run
  of further logins (of this user or others, good or bad, whatever keys the random
  source offers) and of logouts by other users, a login with the same credentials
  succeeds again, returns the same \<open>t\<close> and changes nothing. Only the user's own logout,
  which deletes the token, is excluded.
\<close>

theorem repeated_login_same_token:
  assumes "LoginSerializer_is_valid cp st data = Inr user"
    and "login cp st fresh data =
           (Inr (DataResponse HTTP_200_OK ''Login successful'' (Token t)), st1)"
    and "Logout (Some (user_pk user)) \<notin> set ops"
  shows "login cp (identity_run cp st1 ops) fresh' data =
           (Inr (DataResponse HTTP_200_OK ''Login successful'' (Token t)), identity_run cp st1 ops)"
proof -
  from login_gives_token [OF assms(1,2)]
  have h: "holds_token st1 (user_pk user) t" and u1: "users st1 = users st"
    by simp_all
  from identity_run_keeps_token [OF h assms(3), of cp]
  have h': "holds_token (identity_run cp st1 ops) (user_pk user) t"
    and u': "users (identity_run cp st1 ops) = users st1"
    by simp_all
  from u' u1 have "LoginSerializer_is_valid cp (identity_run cp st1 ops) data = Inr user"
    using is_valid_same_users [of "identity_run cp st1 ops" st cp data] assms(1) by simp
  from login_with_token [OF this h'] show ?thesis .
qed

lemma bob_valid:
  "LoginSerializer_is_valid demo_check demo_db (login_body ''bob'' ''bob'') =
     Inr (demo_user 2 ''bob'')"
  by code_simp

lemma bob_valid_tokens:
  "LoginSerializer_is_valid demo_check (demo_db\<lparr>tokens := ts\<rparr>) (login_body ''bob'' ''bob'') =
     Inr (demo_user 2 ''bob'')"
  using is_valid_same_users [of "demo_db\<lparr>tokens := ts\<rparr>" demo_db demo_check] bob_valid
  by simp

lemma first_login:
  "LoginSerializer_is_valid demo_check demo_db (login_body ''bob'' ''bob'') = Inr (demo_user 2 ''bob'') \<and>
   login demo_check demo_db ''k1'' (login_body ''bob'' ''bob'') =
     (Inr (DataResponse HTTP_200_OK ''Login successful'' (Token ''k1'')),
      demo_db\<lparr>tokens := [(2, ''k1'')]\<rparr>)"
  using bob_valid
  by (simp add: login_def token_get_or_create_def) (simp add: demo_db_def demo_user_def)

theorem repeated_login_same_token_witness:
  "login demo_check (identity_run demo_check (demo_db\<lparr>tokens := [(2, ''k1'')]\<rparr>) demo_ops) ''k9''
     (login_body ''bob'' ''bob'') =
   (Inr (DataResponse HTTP_200_OK ''Login successful'' (Token ''k1'')),
    identity_run demo_check (demo_db\<lparr>tokens := [(2, ''k1'')]\<rparr>) demo_ops)"
proof -
  have "Logout (Some (user_pk (demo_user 2 ''bob''))) \<notin> set demo_ops"
    by (simp add: demo_ops_def demo_user_def)
  from repeated_login_same_token [OF conjunct1 [OF first_login] conjunct2 [OF first_login] this]
  show ?thesis .
qed

text \<open>After the user's own logout the next login creates a token from the offered key.\<close>

lemma login_after_logout:
  "login demo_check (snd (logout (demo_db\<lparr>tokens := [(2, ''k1'')]\<rparr>) (Some 2))) ''k9''
     (login_body ''bob'' ''bob'') =
   (Inr (DataResponse HTTP_200_OK ''Login successful'' (Token ''k9'')),
    demo_db\<lparr>tokens := [(2, ''k9'')]\<rparr>)"
proof -
  have "snd (logout (demo_db\<lparr>tokens := [(2, ''k1'')]\<rparr>) (Some 2)) = demo_db\<lparr>tokens := []\<rparr>"
    by (simp add: logout_def)
  then show ?thesis
    by (simp add: login_def bob_valid_tokens token_get_or_create_def demo_user_def)
qed

end
